theory Spec2Isabelle
  imports Main "HOL-Library.Word"
begin

section \<open>Device name suffix of the CP210x serial device\<close>

text \<open>
  A shallow embedding of \<^verbatim>\<open>coop_plausible_CP210x_SerialDevice::getDeviceNameSuffix\<close>
  (\<^verbatim>\<open>src/CP210x/SerialDevice.cpp\<close>, lines 119 to 194). The function reads facts of a
  USB device through the IOKit objects it is handed, chooses a candidate string in three
  tiers (serial number, location id, the literal \<^verbatim>\<open>unknown\<close>) and appends the
  interface number in hexadecimal.
\<close>

subsection \<open>C strings and the library calls the function makes\<close>

text \<open>
  A \<^verbatim>\<open>char\<close> buffer is the list of its bytes; the C string it holds is the bytes
  before the first NUL. \<^verbatim>\<open>strnlen\<close> looks at no more than its bound,
  \<^verbatim>\<open>strcmp\<close> compares the two C strings (only its being zero or not is used),
  \<^verbatim>\<open>OSString::withCString\<close> copies the C string, and \<^verbatim>\<open>getLength\<close> is the number
  of bytes of an \<^verbatim>\<open>OSString\<close>. Memory exhaustion in \<^verbatim>\<open>withCString\<close> is not
  modelled. A buffer holding no NUL at all is read as all of its bytes (the code would
  read past its end there; \<^verbatim>\<open>GetStringDescriptor\<close> terminates what it writes).
\<close>

type_synonym OSString = string

definition NUL :: char where
  "NUL = CHR 0x00"

definition c_str :: "char list \<Rightarrow> string" where
  "c_str buf = takeWhile (\<lambda>c. c \<noteq> NUL) buf"

definition strnlen :: "char list \<Rightarrow> nat \<Rightarrow> nat" where
  "strnlen buf maxlen = length (takeWhile (\<lambda>c. c \<noteq> NUL) (take maxlen buf))"

definition strcmp_differs :: "char list \<Rightarrow> char list \<Rightarrow> bool" where
  "strcmp_differs a b = (c_str a \<noteq> c_str b)"

definition withCString :: "char list \<Rightarrow> OSString" where
  "withCString buf = c_str buf"

definition getLength :: "OSString \<Rightarrow> nat" where
  "getLength s = length s"

text \<open>
  \<^verbatim>\<open>printf\<close>'s \<^verbatim>\<open>%x\<close>: the unsigned value in base 16, digits \<^verbatim>\<open>0-9a-f\<close>, no
  prefix, no padding, a single \<^verbatim>\<open>0\<close> for zero.
\<close>

definition hex_digit :: "nat \<Rightarrow> char" where
  "hex_digit d = ''0123456789abcdef'' ! d"

fun printf_x :: "nat \<Rightarrow> string" where
  "printf_x n =
     (if n < 16 then [hex_digit n]
      else printf_x (n div 16) @ [hex_digit (n mod 16)])"

declare printf_x.simps [simp del]

text \<open>
  \<^verbatim>\<open>snprintf(buf, size, ...)\<close> stores at most \<^verbatim>\<open>size - 1\<close> bytes of the formatted
  text and a NUL after them; the argument here is the formatted text, the result is
  the C string left in the buffer.
\<close>

definition snprintf :: "nat \<Rightarrow> string \<Rightarrow> string" where
  "snprintf bufsize formatted = take (bufsize - 1) formatted"

subsection \<open>The IOKit objects\<close>

text \<open>
  \<^verbatim>\<open>IOReturn\<close> is a 32-bit status, \<^verbatim>\<open>kIOReturnSuccess\<close> is 0. The device is the
  record of what the function asks of it: \<^verbatim>\<open>GetStringDescriptor idx maxLen\<close> gives
  the status and the bytes of the caller's buffer after the call;
  \<^verbatim>\<open>LocationID\<close> is the outcome of
  \<^verbatim>\<open>OSDynamicCast(OSNumber, getProperty(kUSBDevicePropertyLocationID))\<close> followed by
  \<^verbatim>\<open>unsigned32BitValue()\<close>, \<open>None\<close> when the cast gives \<^verbatim>\<open>NULL\<close>.
\<close>

type_synonym IOReturn = "32 word"

definition kIOReturnSuccess :: IOReturn where
  "kIOReturnSuccess = 0"

record IOUSBDevice =
  GetProductID :: "16 word"
  GetVendorID :: "16 word"
  GetSerialNumberStringIndex :: "8 word"
  GetStringDescriptor :: "8 word \<Rightarrow> nat \<Rightarrow> IOReturn \<times> char list"
  LocationID :: "32 word option"

record IOUSBInterface =
  GetDevice :: IOUSBDevice
  GetInterfaceNumber :: "8 word"

text \<open>
  The table \<^verbatim>\<open>coop_plausible_driver_CP210x_default_ids\<close> is declared in
  \<^verbatim>\<open>usbdevs.h\<close>, which is not part of the sources at hand: it is a parameter of
  the model, a list of entries with the two fields the loop reads.
\<close>

record default_id =
  vendor :: "16 word"
  product :: "16 word"

text \<open>
  Modelled from the spec: the macro \<^verbatim>\<open>SILABS_DEFAULT_EEPROM_SERIAL\<close> of the missing
  header. The spec calls it the documented factory-default serial and gives \<^verbatim>\<open>0001\<close>;
  the note above the function says the same.
\<close>

definition SILABS_DEFAULT_EEPROM_SERIAL :: string where
  "SILABS_DEFAULT_EEPROM_SERIAL = ''0001''"

subsection \<open>getDeviceNameSuffix\<close>

text \<open>Lines 129 to 140: the scan of the table, leaving at the first match.\<close>

fun defaultEEPROMID :: "default_id list \<Rightarrow> 16 word \<Rightarrow> 16 word \<Rightarrow> bool" where
  "defaultEEPROMID [] vendorId prodId = False"
| "defaultEEPROMID (e # ids) vendorId prodId =
     (if vendorId \<noteq> vendor e then defaultEEPROMID ids vendorId prodId
      else if prodId \<noteq> product e then defaultEEPROMID ids vendorId prodId
      else True)"

text \<open>Lines 143 to 163: the serial number, \<open>None\<close> for a \<^verbatim>\<open>result\<close> left \<^verbatim>\<open>NULL\<close>.\<close>

definition serialNumberTier :: "default_id list \<Rightarrow> IOUSBDevice \<Rightarrow> OSString option" where
  "serialNumberTier ids device =
     (let idx = GetSerialNumberStringIndex device in
      if idx \<noteq> 0 then
        (let (ret, serialStr) = GetStringDescriptor device idx 256 in
         if ret = kIOReturnSuccess \<and> strnlen serialStr 256 > 0 then
           (if \<not> defaultEEPROMID ids (GetVendorID device) (GetProductID device)
               \<or> strcmp_differs serialStr SILABS_DEFAULT_EEPROM_SERIAL
            then Some (withCString serialStr)
            else None)
         else None)
      else None)"

text \<open>Lines 167 to 175: the location id, printed into a buffer of 9 bytes.\<close>

definition locationTier :: "IOUSBDevice \<Rightarrow> OSString option" where
  "locationTier device =
     (case LocationID device of
        None \<Rightarrow> None
      | Some location \<Rightarrow> Some (withCString (snprintf 9 (printf_x (unat location)))))"

text \<open>The value of \<^verbatim>\<open>result\<close> at line 176: the first tier that gave a string.\<close>

definition candidate :: "default_id list \<Rightarrow> IOUSBDevice \<Rightarrow> OSString option" where
  "candidate ids device =
     (case serialNumberTier ids device of
        Some result \<Rightarrow> Some result
      | None \<Rightarrow> locationTier device)"

text \<open>
  Lines 177 to 193. The function returns the string and, as the second component, what
  it wrote with \<^verbatim>\<open>LOG_ERR\<close>. The interface number is a \<^verbatim>\<open>UInt8\<close> cast to
  \<^verbatim>\<open>int\<close>, so \<^verbatim>\<open>%x\<close> prints its unsigned value.
\<close>

definition LOG_no_suffix :: string where
  "LOG_no_suffix =
     ''Failed to locate a valid serial number or USB location to use for device node naming''"

definition getDeviceNameSuffix :: "default_id list \<Rightarrow> IOUSBInterface \<Rightarrow> OSString \<times> string list" where
  "getDeviceNameSuffix ids interface =
     (case candidate ids (GetDevice interface) of
        None \<Rightarrow> (withCString ''unknown'', [LOG_no_suffix])
      | Some result \<Rightarrow>
          (withCString
             (snprintf (getLength result + 3 + 1)
                (result @ printf_x (unat (GetInterfaceNumber interface)))),
           []))"

subsection \<open>What the spec's words need, and example inputs\<close>

text \<open>
  The spec speaks of trimming whitespace; the code has no such step. Whitespace is what
  C's \<^verbatim>\<open>isspace\<close> accepts in the default locale.
\<close>

definition isspace :: "char \<Rightarrow> bool" where
  "isspace c = (c \<in> set [CHR '' '', CHR 0x09, CHR 0x0A, CHR 0x0B, CHR 0x0C, CHR 0x0D])"

text \<open>
  Example inputs: a buffer of 256 bytes holding a string and NULs after it, a table
  with the one pair of the spec's example, and a device whose string descriptor request
  has the same outcome at every index.
\<close>

definition descriptor_buffer :: "string \<Rightarrow> char list" where
  "descriptor_buffer s = s @ replicate (256 - length s) NUL"

definition example_ids :: "default_id list" where
  "example_ids = [\<lparr>vendor = 0x10C4, product = 0xEA60\<rparr>]"

definition example_device ::
  "16 word \<Rightarrow> 16 word \<Rightarrow> 8 word \<Rightarrow> IOReturn \<times> char list \<Rightarrow> 32 word option \<Rightarrow> IOUSBDevice" where
  "example_device vendorId prodId idx fetched location =
     \<lparr>GetProductID = prodId, GetVendorID = vendorId, GetSerialNumberStringIndex = idx,
      GetStringDescriptor = (\<lambda>i maxLen. fetched), LocationID = location\<rparr>"

section \<open>Facts about the library calls\<close>

lemma hex_digit_inj: "a < 16 \<Longrightarrow> b < 16 \<Longrightarrow> hex_digit a = hex_digit b \<Longrightarrow> a = b"
  unfolding hex_digit_def
  by (subst (asm) nth_eq_iff_index_eq) simp_all

lemma hex_digit_not_NUL: "d < 16 \<Longrightarrow> hex_digit d \<noteq> NUL"
proof -
  assume "d < 16"
  then have "hex_digit d \<in> set ''0123456789abcdef''"
    unfolding hex_digit_def by (intro nth_mem) simp
  then show ?thesis by (auto simp: NUL_def)
qed

lemma printf_x_nonempty: "printf_x n \<noteq> []"
  by (subst printf_x.simps) simp

lemma printf_x_length: "0 < k \<Longrightarrow> n < 16 ^ k \<Longrightarrow> length (printf_x n) \<le> k"
proof (induction k arbitrary: n)
  case 0
  then show ?case by simp
next
  case (Suc k)
  show ?case
  proof (cases "n < 16")
    case True
    then show ?thesis by (subst printf_x.simps) simp
  next
    case False
    then have k: "0 < k" using Suc.prems by (cases k) auto
    have "n div 16 < 16 ^ k" using Suc.prems by (simp add: less_mult_imp_div_less mult.commute)
    from Suc.IH [OF k this] False show ?thesis by (subst printf_x.simps) simp
  qed
qed

lemma printf_x_no_NUL: "NUL \<notin> set (printf_x n)"
proof (induction n rule: printf_x.induct)
  case (1 n)
  show ?case
  proof (cases "n < 16")
    case True
    then show ?thesis using hex_digit_not_NUL [of n] by (subst printf_x.simps) auto
  next
    case False
    then show ?thesis using 1 hex_digit_not_NUL [of "n mod 16"] by (subst printf_x.simps) auto
  qed
qed

lemma printf_x_inj: "printf_x n = printf_x m \<Longrightarrow> n = m"
proof (induction n arbitrary: m rule: printf_x.induct)
  case (1 n)
  show ?case
  proof (cases "n < 16")
    case n: True
    show ?thesis
    proof (cases "m < 16")
      case True
      with n "1.prems" show ?thesis
        by (simp add: printf_x.simps [of n] printf_x.simps [of m] hex_digit_inj)
    next
      case False
      with n "1.prems" printf_x_nonempty [of "m div 16"] show ?thesis
        by (simp add: printf_x.simps [of n] printf_x.simps [of m])
    qed
  next
    case n: False
    show ?thesis
    proof (cases "m < 16")
      case True
      with n "1.prems" printf_x_nonempty [of "n div 16"] show ?thesis
        by (simp add: printf_x.simps [of n] printf_x.simps [of m])
    next
      case False
      with n "1.prems" have eq: "printf_x (n div 16) = printf_x (m div 16)"
        and d: "hex_digit (n mod 16) = hex_digit (m mod 16)"
        by (simp_all add: printf_x.simps [of n] printf_x.simps [of m])
      from "1.IH" [OF n eq] have "n div 16 = m div 16" .
      moreover from d have "n mod 16 = m mod 16" by (intro hex_digit_inj) simp_all
      ultimately show ?thesis by (metis div_mult_mod_eq)
    qed
  qed
qed

section \<open>Facts about the tiers\<close>

lemma c_str_id: "NUL \<notin> set s \<Longrightarrow> c_str s = s"
  unfolding c_str_def by (induction s) auto

lemma c_str_no_NUL: "NUL \<notin> set (c_str buf)"
  unfolding c_str_def by (auto dest: set_takeWhileD)

lemma strnlen_pos: "0 < n \<Longrightarrow> (0 < strnlen buf n) = (c_str buf \<noteq> [])"
  unfolding strnlen_def c_str_def by (cases buf; cases n) auto

lemma defaultEEPROMID_iff:
  "defaultEEPROMID ids v p = (\<lparr>vendor = v, product = p\<rparr> \<in> set ids)"
proof (induction ids)
  case Nil
  show ?case by simp
next
  case (Cons e ids)
  then show ?case by (cases e) auto
qed

lemma serialNumberTier_eq:
  "serialNumberTier ids d =
     (let fetched = GetStringDescriptor d (GetSerialNumberStringIndex d) 256 in
      if GetSerialNumberStringIndex d \<noteq> 0 \<and> fst fetched = kIOReturnSuccess
         \<and> c_str (snd fetched) \<noteq> []
         \<and> (\<lparr>vendor = GetVendorID d, product = GetProductID d\<rparr> \<in> set ids
              \<longrightarrow> c_str (snd fetched) \<noteq> SILABS_DEFAULT_EEPROM_SERIAL)
      then Some (c_str (snd fetched)) else None)"
  by (auto simp: serialNumberTier_def Let_def strnlen_pos defaultEEPROMID_iff
      strcmp_differs_def withCString_def SILABS_DEFAULT_EEPROM_SERIAL_def NUL_def c_str_def
      split: prod.splits)

lemma locationTier_eq:
  "locationTier d = map_option (\<lambda>location. printf_x (unat location)) (LocationID d)"
proof (cases "LocationID d")
  case None
  then show ?thesis by (simp add: locationTier_def)
next
  case (Some l)
  have "unat l < 16 ^ 8" using unsigned_less [of l] by simp
  then have "length (printf_x (unat l)) \<le> 8" by (intro printf_x_length) simp_all
  then show ?thesis using Some
    by (simp add: locationTier_def snprintf_def withCString_def c_str_id printf_x_no_NUL)
qed

lemma candidate_no_NUL: "candidate ids d = Some r \<Longrightarrow> NUL \<notin> set r"
  by (auto simp: candidate_def serialNumberTier_eq locationTier_eq Let_def c_str_no_NUL
      printf_x_no_NUL split: option.splits if_splits)

lemma interface_digits: "length (printf_x (unat (n :: 8 word))) \<le> 2"
proof -
  have "unat n < 16 ^ 2" using unsigned_less [of n] by simp
  then show ?thesis by (intro printf_x_length) simp_all
qed

lemma uniqueStr_exact:
  "snprintf (getLength r + 3 + 1) (r @ printf_x (unat (n :: 8 word))) = r @ printf_x (unat n)"
  using interface_digits [of n] by (simp add: snprintf_def getLength_def)

lemma suffix_of_candidate:
  assumes "candidate ids (GetDevice i) = Some r"
  shows "getDeviceNameSuffix ids i = (r @ printf_x (unat (GetInterfaceNumber i)), [])"
proof -
  have "NUL \<notin> set (r @ printf_x (unat (GetInterfaceNumber i)))"
    using candidate_no_NUL [OF assms] printf_x_no_NUL by simp
  then have "c_str (r @ printf_x (unat (GetInterfaceNumber i))) =
      r @ printf_x (unat (GetInterfaceNumber i))"
    by (rule c_str_id)
  then show ?thesis
    unfolding getDeviceNameSuffix_def assms uniqueStr_exact withCString_def by simp
qed

lemma suffix_unknown:
  "candidate ids (GetDevice i) = None \<Longrightarrow> getDeviceNameSuffix ids i = (''unknown'', [LOG_no_suffix])"
  by (simp add: getDeviceNameSuffix_def withCString_def c_str_def NUL_def)

lemma suffix_without_serial:
  assumes "serialNumberTier ids d = None"
  shows "fst (getDeviceNameSuffix ids \<lparr>GetDevice = d, GetInterfaceNumber = n\<rparr>) =
        (case LocationID d of
           None \<Rightarrow> ''unknown''
         | Some location \<Rightarrow> printf_x (unat location) @ printf_x (unat n))"
proof (cases "LocationID d")
  case None
  then have "candidate ids (GetDevice \<lparr>GetDevice = d, GetInterfaceNumber = n\<rparr>) = None"
    using assms by (simp add: candidate_def locationTier_eq)
  then show ?thesis using None by (simp add: suffix_unknown)
next
  case (Some l)
  then have "candidate ids (GetDevice \<lparr>GetDevice = d, GetInterfaceNumber = n\<rparr>) =
      Some (printf_x (unat l))"
    using assms by (simp add: candidate_def locationTier_eq)
  then show ?thesis using Some by (simp add: suffix_of_candidate)
qed

section \<open>The claims\<close>

subsection \<open>The fallback tier\<close>

text \<open>
  C1, as amended. When neither the serial number tier nor the location tier gives a
  string, the function returns the literal \<^verbatim>\<open>unknown\<close> as it is and logs one
  error: it leaves at line 180, before the interface number is appended at line 187.
  The claim's \<^verbatim>\<open>unknown0\<close> is not what is returned.
\<close>

theorem unknown_without_index:
  assumes "serialNumberTier ids (GetDevice i) = None"
    and "locationTier (GetDevice i) = None"
  shows "getDeviceNameSuffix ids i = (''unknown'', [LOG_no_suffix])"
  using assms by (intro suffix_unknown) (simp add: candidate_def)

theorem unknown_without_index_witness:
  "getDeviceNameSuffix example_ids
     \<lparr>GetDevice = example_device 0x10C4 0xEA60 0 (0xE00002BC, []) None,
      GetInterfaceNumber = 5\<rparr> = (''unknown'', [LOG_no_suffix])"
  by (rule unknown_without_index)
    (simp_all add: serialNumberTier_def locationTier_def example_device_def)

theorem unknown0_counterexample:
  "serialNumberTier example_ids (example_device 0x10C4 0xEA60 0 (0xE00002BC, []) None) = None
   \<and> locationTier (example_device 0x10C4 0xEA60 0 (0xE00002BC, []) None) = None
   \<and> fst (getDeviceNameSuffix example_ids
        \<lparr>GetDevice = example_device 0x10C4 0xEA60 0 (0xE00002BC, []) None,
         GetInterfaceNumber = 0\<rparr>) \<noteq> ''unknown0''"
  by (simp add: getDeviceNameSuffix_def candidate_def serialNumberTier_def locationTier_def
      example_device_def withCString_def c_str_def NUL_def)

subsection \<open>Interfaces of one device\<close>

text \<open>
  C2, as amended. Two interfaces of the same device with different interface numbers
  get different suffixes whenever the serial number tier or the location tier gives a
  string. (With no such string both get \<^verbatim>\<open>unknown\<close>, which is the counterexample.)
\<close>

theorem suffixes_differ:
  assumes "GetDevice a = GetDevice b"
    and "GetInterfaceNumber a \<noteq> GetInterfaceNumber b"
    and "candidate ids (GetDevice a) \<noteq> None"
  shows "fst (getDeviceNameSuffix ids a) \<noteq> fst (getDeviceNameSuffix ids b)"
proof -
  from assms(3) obtain r where r: "candidate ids (GetDevice a) = Some r" by auto
  then have rb: "candidate ids (GetDevice b) = Some r" using assms(1) by simp
  have "printf_x (unat (GetInterfaceNumber a)) \<noteq> printf_x (unat (GetInterfaceNumber b))"
    using assms(2) by (auto dest!: printf_x_inj simp: word_unat_eq_iff)
  then show ?thesis
    by (simp add: suffix_of_candidate [OF r] suffix_of_candidate [OF rb])
qed

theorem suffixes_differ_witness:
  "fst (getDeviceNameSuffix example_ids
        \<lparr>GetDevice = example_device 0x10C4 0xEA60 0 (0xE00002BC, []) (Some 0x1A200000),
         GetInterfaceNumber = 0\<rparr>)
   \<noteq> fst (getDeviceNameSuffix example_ids
        \<lparr>GetDevice = example_device 0x10C4 0xEA60 0 (0xE00002BC, []) (Some 0x1A200000),
         GetInterfaceNumber = 1\<rparr>)"
  by (rule suffixes_differ)
    (simp_all add: candidate_def serialNumberTier_def locationTier_def example_device_def)

theorem suffixes_equal_counterexample:
  "GetInterfaceNumber
     \<lparr>GetDevice = example_device 0x10C4 0xEA60 0 (0xE00002BC, []) None,
      GetInterfaceNumber = 0\<rparr>
   \<noteq> GetInterfaceNumber
     \<lparr>GetDevice = example_device 0x10C4 0xEA60 0 (0xE00002BC, []) None,
      GetInterfaceNumber = 1\<rparr>
   \<and> fst (getDeviceNameSuffix example_ids
        \<lparr>GetDevice = example_device 0x10C4 0xEA60 0 (0xE00002BC, []) None,
         GetInterfaceNumber = 0\<rparr>)
   = fst (getDeviceNameSuffix example_ids
        \<lparr>GetDevice = example_device 0x10C4 0xEA60 0 (0xE00002BC, []) None,
         GetInterfaceNumber = 1\<rparr>)"
  by (simp add: getDeviceNameSuffix_def candidate_def serialNumberTier_def locationTier_def
      example_device_def)

subsection \<open>The result is never empty\<close>

text \<open>
  C3. For every table, device and interface the function returns a string that is not
  empty. It has no error result: the model is a total function into strings, as the
  source has no path that returns \<^verbatim>\<open>NULL\<close> or fails.
\<close>

theorem suffix_nonempty: "fst (getDeviceNameSuffix ids i) \<noteq> []"
proof (cases "candidate ids (GetDevice i)")
  case None
  then show ?thesis by (simp add: suffix_unknown)
next
  case (Some r)
  then show ?thesis by (simp add: suffix_of_candidate printf_x_nonempty)
qed

theorem suffix_nonempty_witness:
  "fst (getDeviceNameSuffix example_ids
        \<lparr>GetDevice = example_device 0x10C4 0xEA60 3
           (kIOReturnSuccess, descriptor_buffer ''0001'') None,
         GetInterfaceNumber = 0\<rparr>) \<noteq> []"
  by (rule suffix_nonempty)

subsection \<open>The factory default serial number\<close>

text \<open>
  C4. If the pair of vendor and product id is in the table and the request for the
  serial number succeeds with exactly the factory default string, the serial number tier
  gives nothing: the candidate is what the location tier gives, and the result is the
  location id in hexadecimal followed by the interface number, or \<^verbatim>\<open>unknown\<close>
  when there is no location id.
\<close>

theorem default_serial_rejected:
  assumes "\<lparr>vendor = GetVendorID d, product = GetProductID d\<rparr> \<in> set ids"
    and "GetStringDescriptor d (GetSerialNumberStringIndex d) 256 = (kIOReturnSuccess, serialStr)"
    and "c_str serialStr = SILABS_DEFAULT_EEPROM_SERIAL"
  shows "serialNumberTier ids d = None
    \<and> candidate ids d = locationTier d
    \<and> fst (getDeviceNameSuffix ids \<lparr>GetDevice = d, GetInterfaceNumber = n\<rparr>) =
        (case LocationID d of
           None \<Rightarrow> ''unknown''
         | Some location \<Rightarrow> printf_x (unat location) @ printf_x (unat n))"
proof -
  have s: "serialNumberTier ids d = None"
    using assms by (simp add: serialNumberTier_eq)
  from s suffix_without_serial [OF s, of n] show ?thesis
    by (simp add: candidate_def)
qed

theorem default_serial_rejected_witness:
  "fst (getDeviceNameSuffix example_ids
     \<lparr>GetDevice = example_device 0x10C4 0xEA60 3
        (kIOReturnSuccess, descriptor_buffer ''0001'') (Some 0x1A200000),
      GetInterfaceNumber = 0\<rparr>) = ''1a2000000''"
proof -
  let ?d = "example_device 0x10C4 0xEA60 3
        (kIOReturnSuccess, descriptor_buffer ''0001'') (Some 0x1A200000)"
  have 1: "\<lparr>vendor = GetVendorID ?d, product = GetProductID ?d\<rparr> \<in> set example_ids"
    by (simp add: example_device_def example_ids_def)
  have 2: "GetStringDescriptor ?d (GetSerialNumberStringIndex ?d) 256 =
      (kIOReturnSuccess, descriptor_buffer ''0001'')"
    by (simp add: example_device_def)
  have 3: "c_str (descriptor_buffer ''0001'') = SILABS_DEFAULT_EEPROM_SERIAL"
    by (simp add: descriptor_buffer_def c_str_def NUL_def SILABS_DEFAULT_EEPROM_SERIAL_def)
  have 4: "LocationID ?d = Some 0x1A200000"
    by (simp add: example_device_def)
  have 5: "printf_x (unat (0x1A200000 :: 32 word)) @ printf_x (unat (0 :: 8 word)) = ''1a2000000''"
    by (simp add: printf_x.simps hex_digit_def)
  show ?thesis
    using default_serial_rejected [OF 1 2 3, of 0] by (simp only: 4 5 option.case)
qed

subsection \<open>The serial number tier\<close>

text \<open>
  C5. Whenever the serial number tier succeeds (the device names a serial number string,
  the request succeeds, the string is not empty, and it is not the factory default of
  a device in the table), the candidate is exactly the string that was fetched, the
  result is that string followed at once by the interface number in lowercase
  hexadecimal, and the location id plays no part: with any other location id, or none,
  the function returns and logs the same.
\<close>

theorem serial_is_candidate:
  assumes "GetSerialNumberStringIndex d \<noteq> 0"
    and "GetStringDescriptor d (GetSerialNumberStringIndex d) 256 = (kIOReturnSuccess, serialStr)"
    and "c_str serialStr \<noteq> []"
    and "\<lparr>vendor = GetVendorID d, product = GetProductID d\<rparr> \<notin> set ids
         \<or> c_str serialStr \<noteq> SILABS_DEFAULT_EEPROM_SERIAL"
  shows "candidate ids d = Some (c_str serialStr)
    \<and> fst (getDeviceNameSuffix ids \<lparr>GetDevice = d, GetInterfaceNumber = n\<rparr>) =
        c_str serialStr @ printf_x (unat n)
    \<and> getDeviceNameSuffix ids \<lparr>GetDevice = d\<lparr>LocationID := location\<rparr>, GetInterfaceNumber = n\<rparr> =
        getDeviceNameSuffix ids \<lparr>GetDevice = d, GetInterfaceNumber = n\<rparr>"
proof -
  have s: "serialNumberTier ids (d\<lparr>LocationID := l\<rparr>) = Some (c_str serialStr)" for l
    using assms by (auto simp: serialNumberTier_eq)
  from s [of "LocationID d"] have c: "candidate ids d = Some (c_str serialStr)"
    by (simp add: candidate_def)
  have c': "candidate ids (d\<lparr>LocationID := location\<rparr>) = Some (c_str serialStr)"
    using s [of location] by (simp add: candidate_def)
  have "getDeviceNameSuffix ids \<lparr>GetDevice = d, GetInterfaceNumber = n\<rparr> =
      (c_str serialStr @ printf_x (unat n), [])"
    using c by (simp add: suffix_of_candidate)
  moreover have "getDeviceNameSuffix ids
      \<lparr>GetDevice = d\<lparr>LocationID := location\<rparr>, GetInterfaceNumber = n\<rparr> =
      (c_str serialStr @ printf_x (unat n), [])"
    using c' by (simp add: suffix_of_candidate)
  ultimately show ?thesis using c by simp
qed

theorem serial_is_candidate_witness:
  "fst (getDeviceNameSuffix example_ids
     \<lparr>GetDevice = example_device 0x0403 0x6001 3
        (kIOReturnSuccess, descriptor_buffer ''A1B2C3'') (Some 0x1A200000),
      GetInterfaceNumber = 1\<rparr>) = ''A1B2C31''"
proof -
  let ?d = "example_device 0x0403 0x6001 3
        (kIOReturnSuccess, descriptor_buffer ''A1B2C3'') (Some 0x1A200000)"
  have 1: "GetSerialNumberStringIndex ?d \<noteq> 0"
    by (simp add: example_device_def)
  have 2: "GetStringDescriptor ?d (GetSerialNumberStringIndex ?d) 256 =
      (kIOReturnSuccess, descriptor_buffer ''A1B2C3'')"
    by (simp add: example_device_def)
  have 3: "c_str (descriptor_buffer ''A1B2C3'') = ''A1B2C3''"
    by (simp add: descriptor_buffer_def c_str_def NUL_def)
  have 4: "\<lparr>vendor = GetVendorID ?d, product = GetProductID ?d\<rparr> \<notin> set example_ids
      \<or> c_str (descriptor_buffer ''A1B2C3'') \<noteq> SILABS_DEFAULT_EEPROM_SERIAL"
    by (simp add: example_device_def example_ids_def)
  have 5: "printf_x (unat (1 :: 8 word)) = ''1''"
    by (simp add: printf_x.simps hex_digit_def)
  have 6: "c_str (descriptor_buffer ''A1B2C3'') \<noteq> []"
    by (simp add: 3)
  from serial_is_candidate [OF 1 2 6 4, where n = 1]
  have "fst (getDeviceNameSuffix example_ids \<lparr>GetDevice = ?d, GetInterfaceNumber = 1\<rparr>) =
      c_str (descriptor_buffer ''A1B2C3'') @ printf_x (unat (1 :: 8 word))"
    by blast
  then show ?thesis by (simp only: 3 5 append.simps)
qed

subsection \<open>The location tier\<close>

text \<open>
  C6. For two devices on which the serial number tier gives nothing and which have
  different location ids, the candidates (the strings before the interface number is
  appended) differ: each is its 32-bit location id in lowercase hexadecimal without
  padding, which fits the buffer of 9 bytes and is injective.
\<close>

theorem location_candidates_differ:
  assumes "serialNumberTier ids a = None" and "serialNumberTier ids b = None"
    and "LocationID a = Some la" and "LocationID b = Some lb"
    and "la \<noteq> lb"
  shows "candidate ids a = Some (printf_x (unat la))
    \<and> candidate ids b = Some (printf_x (unat lb))
    \<and> candidate ids a \<noteq> candidate ids b"
proof -
  have a: "candidate ids a = Some (printf_x (unat la))"
    using assms(1,3) by (simp add: candidate_def locationTier_eq)
  have b: "candidate ids b = Some (printf_x (unat lb))"
    using assms(2,4) by (simp add: candidate_def locationTier_eq)
  have "printf_x (unat la) \<noteq> printf_x (unat lb)"
    using assms(5) by (auto dest!: printf_x_inj simp: word_unat_eq_iff)
  with a b show ?thesis by simp
qed

theorem location_candidates_differ_witness:
  "candidate example_ids (example_device 0x10C4 0xEA60 0 (0xE00002BC, []) (Some 0x1A200000))
   \<noteq> candidate example_ids (example_device 0x10C4 0xEA60 0 (0xE00002BC, []) (Some 0x1A300000))"
proof -
  let ?a = "example_device 0x10C4 0xEA60 0 (0xE00002BC, []) (Some 0x1A200000)"
  let ?b = "example_device 0x10C4 0xEA60 0 (0xE00002BC, []) (Some 0x1A300000)"
  have 1: "serialNumberTier example_ids ?a = None"
    by (simp add: serialNumberTier_def example_device_def)
  have 2: "serialNumberTier example_ids ?b = None"
    by (simp add: serialNumberTier_def example_device_def)
  have 3: "LocationID ?a = Some 0x1A200000" by (simp add: example_device_def)
  have 4: "LocationID ?b = Some 0x1A300000" by (simp add: example_device_def)
  have 5: "(0x1A200000 :: 32 word) \<noteq> 0x1A300000" by simp
  show ?thesis using location_candidates_differ [OF 1 2 3 4 5] by blast
qed

text \<open>
  C7. If the request for the serial number string fails (its status is not
  \<^verbatim>\<open>kIOReturnSuccess\<close>), the serial number tier gives nothing and the function goes
  on to the location tier: it returns the location id and the interface number in
  hexadecimal, or \<^verbatim>\<open>unknown\<close> when there is no location id, and a string in
  either case.
\<close>

theorem fetch_failure_falls_through:
  assumes "fst (GetStringDescriptor d (GetSerialNumberStringIndex d) 256) \<noteq> kIOReturnSuccess"
  shows "serialNumberTier ids d = None
    \<and> candidate ids d = locationTier d
    \<and> fst (getDeviceNameSuffix ids \<lparr>GetDevice = d, GetInterfaceNumber = n\<rparr>) =
        (case LocationID d of
           None \<Rightarrow> ''unknown''
         | Some location \<Rightarrow> printf_x (unat location) @ printf_x (unat n))"
proof -
  have s: "serialNumberTier ids d = None"
    using assms by (simp add: serialNumberTier_eq)
  from s suffix_without_serial [OF s, of n] show ?thesis
    by (simp add: candidate_def)
qed

theorem fetch_failure_falls_through_witness:
  "fst (getDeviceNameSuffix example_ids
     \<lparr>GetDevice = example_device 0x0403 0x6001 3
        (0xE00002BC, replicate 256 (CHR ''x'')) (Some 0x1A200000),
      GetInterfaceNumber = 2\<rparr>) = ''1a2000002''"
proof -
  let ?d = "example_device 0x0403 0x6001 3
        (0xE00002BC, replicate 256 (CHR ''x'')) (Some 0x1A200000)"
  have 1: "fst (GetStringDescriptor ?d (GetSerialNumberStringIndex ?d) 256) \<noteq> kIOReturnSuccess"
    by (simp add: example_device_def kIOReturnSuccess_def)
  have 4: "LocationID ?d = Some 0x1A200000"
    by (simp add: example_device_def)
  have 5: "printf_x (unat (0x1A200000 :: 32 word)) @ printf_x (unat (2 :: 8 word)) = ''1a2000002''"
    by (simp add: printf_x.simps hex_digit_def)
  show ?thesis
    using fetch_failure_falls_through [OF 1, where ids = example_ids and n = 2]
    by (simp only: 4 5 option.case)
qed

subsection \<open>Empty and blank serial numbers\<close>

text \<open>
  C8, as amended. The serial number tier is skipped whenever the fetched string is empty
  (of length zero: the code trims nothing). A string that was fetched with success, is
  not empty and consists only of whitespace does become the candidate.
\<close>

theorem serial_tier_skips_empty_only:
  assumes "GetStringDescriptor d (GetSerialNumberStringIndex d) 256 = (ret, serialStr)"
  shows "(c_str serialStr = [] \<longrightarrow> serialNumberTier ids d = None)
    \<and> (GetSerialNumberStringIndex d \<noteq> 0 \<and> ret = kIOReturnSuccess
        \<and> c_str serialStr \<noteq> [] \<and> list_all isspace (c_str serialStr)
        \<longrightarrow> serialNumberTier ids d = Some (c_str serialStr))"
proof -
  have "c_str serialStr \<noteq> SILABS_DEFAULT_EEPROM_SERIAL" if "list_all isspace (c_str serialStr)"
  proof
    assume "c_str serialStr = SILABS_DEFAULT_EEPROM_SERIAL"
    with that have "list_all isspace ''0001''"
      by (simp add: SILABS_DEFAULT_EEPROM_SERIAL_def)
    then show False by (simp add: isspace_def)
  qed
  then show ?thesis using assms by (auto simp: serialNumberTier_eq)
qed

theorem serial_tier_skips_empty_only_witness:
  "serialNumberTier example_ids
     (example_device 0x10C4 0xEA60 3 (kIOReturnSuccess, descriptor_buffer []) None) = None
   \<and> serialNumberTier example_ids
     (example_device 0x10C4 0xEA60 3 (kIOReturnSuccess, descriptor_buffer ''  '') None) = Some ''  ''"
proof -
  let ?e = "example_device 0x10C4 0xEA60 3 (kIOReturnSuccess, descriptor_buffer []) None"
  let ?b = "example_device 0x10C4 0xEA60 3 (kIOReturnSuccess, descriptor_buffer ''  '') None"
  have e: "GetStringDescriptor ?e (GetSerialNumberStringIndex ?e) 256 =
      (kIOReturnSuccess, descriptor_buffer [])"
    by (simp add: example_device_def)
  have b: "GetStringDescriptor ?b (GetSerialNumberStringIndex ?b) 256 =
      (kIOReturnSuccess, descriptor_buffer ''  '')"
    by (simp add: example_device_def)
  have ce: "c_str (descriptor_buffer []) = []"
    by (simp add: descriptor_buffer_def c_str_def)
  have cb: "c_str (descriptor_buffer ''  '') = ''  ''"
    by (simp add: descriptor_buffer_def c_str_def NUL_def)
  have ib: "GetSerialNumberStringIndex ?b \<noteq> 0"
    by (simp add: example_device_def)
  have sb: "list_all isspace ''  ''"
    by (simp add: isspace_def)
  from serial_tier_skips_empty_only [OF e, where ids = example_ids] ce
  have 1: "serialNumberTier example_ids ?e = None" by blast
  from serial_tier_skips_empty_only [OF b, where ids = example_ids] ib sb
  have 2: "serialNumberTier example_ids ?b = Some ''  ''" unfolding cb by blast
  from 1 2 show ?thesis by (rule conjI)
qed

theorem blank_serial_counterexample:
  "fst (GetStringDescriptor
          (example_device 0x10C4 0xEA60 3 (kIOReturnSuccess, descriptor_buffer ''  '') None) 3 256)
     = kIOReturnSuccess
   \<and> c_str (snd (GetStringDescriptor
          (example_device 0x10C4 0xEA60 3 (kIOReturnSuccess, descriptor_buffer ''  '') None) 3 256))
     = ''  ''
   \<and> list_all isspace ''  ''
   \<and> serialNumberTier example_ids
        (example_device 0x10C4 0xEA60 3 (kIOReturnSuccess, descriptor_buffer ''  '') None)
     = Some ''  ''
   \<and> fst (getDeviceNameSuffix example_ids
        \<lparr>GetDevice = example_device 0x10C4 0xEA60 3
           (kIOReturnSuccess, descriptor_buffer ''  '') None,
         GetInterfaceNumber = 0\<rparr>) = ''  0''"
  by (simp add: getDeviceNameSuffix_def candidate_def serialNumberTier_def
      example_device_def example_ids_def descriptor_buffer_def isspace_def
      strnlen_def strcmp_differs_def withCString_def c_str_def NUL_def snprintf_def getLength_def
      SILABS_DEFAULT_EEPROM_SERIAL_def printf_x.simps hex_digit_def)

subsection \<open>The staging buffer of the last step\<close>

text \<open>
  C10. The interface number, an 8-bit value, has at most 2 hexadecimal digits; so the
  candidate followed by these digits is shorter than the buffer of candidate length + 3
  + 1 bytes, \<^verbatim>\<open>snprintf\<close> cuts nothing off, and the string returned is exactly the
  candidate followed by the digits.
\<close>

theorem uniqueStr_not_truncated:
  "length (printf_x (unat (GetInterfaceNumber i))) \<le> 2
   \<and> (candidate ids (GetDevice i) = Some r \<longrightarrow>
        length (r @ printf_x (unat (GetInterfaceNumber i))) < getLength r + 3 + 1
        \<and> snprintf (getLength r + 3 + 1) (r @ printf_x (unat (GetInterfaceNumber i))) =
            r @ printf_x (unat (GetInterfaceNumber i))
        \<and> fst (getDeviceNameSuffix ids i) = r @ printf_x (unat (GetInterfaceNumber i)))"
  using interface_digits [of "GetInterfaceNumber i"]
  by (simp add: snprintf_def suffix_of_candidate getLength_def)

theorem uniqueStr_not_truncated_witness:
  "fst (getDeviceNameSuffix example_ids
     \<lparr>GetDevice = example_device 0x10C4 0xEA60 0 (0xE00002BC, []) (Some 0x1A200000),
      GetInterfaceNumber = 0xFF\<rparr>) = ''1a200000ff''"
proof -
  let ?i = "\<lparr>GetDevice = example_device 0x10C4 0xEA60 0 (0xE00002BC, []) (Some 0x1A200000),
      GetInterfaceNumber = 0xFF\<rparr>"
  have 0: "printf_x (unat (0x1A200000 :: 32 word)) = ''1a200000''"
    by (simp add: printf_x.simps hex_digit_def)
  have "candidate example_ids (GetDevice ?i) = Some (printf_x (unat (0x1A200000 :: 32 word)))"
    by (simp add: candidate_def serialNumberTier_def locationTier_eq example_device_def)
  then have 1: "candidate example_ids (GetDevice ?i) = Some ''1a200000''"
    by (simp only: 0)
  have 2: "printf_x (unat (GetInterfaceNumber ?i)) = ''ff''"
    by (simp add: printf_x.simps hex_digit_def)
  from uniqueStr_not_truncated [of ?i example_ids "''1a200000''"] 1
  have "fst (getDeviceNameSuffix example_ids ?i) = ''1a200000'' @ printf_x (unat (GetInterfaceNumber ?i))"
    by blast
  then show ?thesis by (simp only: 2 append.simps)
qed

end
